theory Spec2Isabelle
  imports Complex_Main "HOL-Library.Sublist"
begin

section \<open>The sensor-state engine of \<open>contexts/SensorContext.jsx\<close>\<close>

text \<open>
  The engine lives in the React provider \<open>SensorProvider\<close>. Its state is a handful of
  \<open>useState\<close> cells and refs; a 1000 ms interval calls \<open>simulateFluidMetrics\<close> while the
  \<open>isLive\<close> flag is set, the websocket handler \<open>handleBackendUpdate\<close> replaces the health
  snapshot, and \<open>runDiagnostics\<close> toggles the flag (with a 6000 ms timeout on the way up).

  Numbers are JavaScript doubles in the source; they are modelled as exact reals, so
  rounding error of the floating-point operations, infinities and NaN are outside the
  model (the one NaN the code can compute from well-typed input, the average of an empty
  score list, is written out as \<open>None\<close>). \<open>Math.random()\<close> is an input: every node
  consumes five draws per tick.
\<close>

subsection \<open>Data\<close>

datatype status = Normal | Warning | Critical

text \<open>One element of \<open>INITIAL_SENSORS\<close> (field \<open>id\<close> is \<open>sensor_id\<close>, \<open>name\<close> is
  \<open>sensor_name\<close>). \<open>acoustic\<close> is absent from the initial objects, hence optional.\<close>

record sensor =
  sensor_id :: string
  sensor_name :: string
  location :: string
  lat :: real
  lng :: real
  status :: status
  pressure :: real
  flow :: real
  temp :: real
  vibration :: real
  corrosion :: real
  acoustic :: "real option"

text \<open>A driver of the health feed; the engine reads only its \<open>name\<close>, which the feed
  always supplies (\<open>d.name.toLowerCase()\<close> has no guard for a driver without one).\<close>

record driver =
  name :: string

text \<open>The per-segment record of the feed (\<open>data.system_health[seg]\<close>); both fields may
  be missing from the JSON object.\<close>

record seg_details =
  health_score :: "real option"
  drivers :: "driver list option"

text \<open>A JSON object keyed by segment id, in key order (keys are distinct).\<close>

type_synonym details = "(string \<times> seg_details) list"

record backend_data =
  system_health :: "details option"

text \<open>An entry of the chart buffer built by \<open>updateHistory\<close>.\<close>

record history_entry =
  h_timestamp :: string
  h_pressure :: real
  h_flow :: real
  h_temp :: real

text \<open>The two mutable locals \<open>streamPressure\<close> and \<open>streamFlow\<close> of
  \<open>simulateFluidMetrics\<close>, carried from node to node.\<close>

record stream =
  streamPressure :: real
  streamFlow :: real

text \<open>The five \<open>Math.random()\<close> results one node consumes, in evaluation order:
  \<open>noiseP\<close>, \<open>noiseF\<close>, \<open>noiseV\<close>, \<open>noiseA\<close> and the temperature jitter.\<close>

record draws =
  rP :: real
  rF :: real
  rV :: real
  rA :: real
  rT :: real

text \<open>The provider's state. \<open>segmentHealth\<close> stands for the state cell and for
  \<open>healthRef.current\<close>, which are written together; \<open>systemHealthDetails\<close> likewise for
  \<open>detailsRef.current\<close>; \<open>isLive\<close> for the cell and \<open>isLiveRef.current\<close>.
  \<open>systemHealth = None\<close> is the NaN of an empty average.
  \<open>clock\<close> (ms) and \<open>timers\<close> (the deadlines of the pending \<open>setTimeout\<close> callbacks of
  \<open>runDiagnostics\<close>) model the browser's timer queue.\<close>

record state =
  sensors :: "sensor list"
  segmentHealth :: "string \<rightharpoonup> real"
  systemHealth :: "real option"
  systemHealthDetails :: details
  isLive :: bool
  history :: "history_entry list"
  clock :: nat
  timers :: "nat list"

datatype error = TypeError

subsection \<open>JavaScript primitives\<close>

text \<open>\<open>v || dflt\<close> for a number that may be missing: \<open>undefined\<close> and \<open>0\<close> are falsy.\<close>

definition js_or :: "real option \<Rightarrow> real \<Rightarrow> real" where
  "js_or v dflt = (case v of None \<Rightarrow> dflt | Some x \<Rightarrow> if x = 0 then dflt else x)"

text \<open>\<open>String.prototype.toLowerCase\<close> on ASCII text.\<close>

definition toLowerCase_char :: "char \<Rightarrow> char" where
  "toLowerCase_char c =
     (case map_of (zip ''ABCDEFGHIJKLMNOPQRSTUVWXYZ'' ''abcdefghijklmnopqrstuvwxyz'') c of
        Some l \<Rightarrow> l | None \<Rightarrow> c)"

definition toLowerCase :: "string \<Rightarrow> string" where
  "toLowerCase s = map toLowerCase_char s"

text \<open>\<open>s.includes(sub)\<close>: \<open>sub\<close> occurs in \<open>s\<close> as a contiguous substring.\<close>

fun str_includes :: "string \<Rightarrow> string \<Rightarrow> bool" where
  "str_includes [] sub = (sub = [])"
| "str_includes (c # cs) sub = (prefix sub (c # cs) \<or> str_includes cs sub)"

text \<open>\<open>parseFloat(x.toFixed(digits))\<close>: the decimal with \<open>digits\<close> fraction digits
  nearest to \<open>x\<close>, ties away from zero.\<close>

definition toFixed :: "nat \<Rightarrow> real \<Rightarrow> real" where
  "toFixed digits x =
     (if x < 0 then - (of_int \<lfloor>(- x) * 10 ^ digits + 1 / 2\<rfloor> / 10 ^ digits)
      else of_int \<lfloor>x * 10 ^ digits + 1 / 2\<rfloor> / 10 ^ digits)"

text \<open>\<open>xs.slice(-n)\<close>: the last \<open>n\<close> elements, all of them when there are fewer.\<close>

definition slice_last :: "nat \<Rightarrow> 'a list \<Rightarrow> 'a list" where
  "slice_last n xs = drop (length xs - n) xs"

subsection \<open>Initial state\<close>

definition INITIAL_SENSORS :: "sensor list" where
  "INITIAL_SENSORS =
    [\<lparr>sensor_id = ''SENSOR_A'', sensor_name = ''Sensor A (Inlet)'', location = ''Segment A-B'',
      lat = 51.505, lng = - 0.15, status = Normal, pressure = 75, flow = 350, temp = 32,
      vibration = 0.02, corrosion = 0.01, acoustic = None\<rparr>,
     \<lparr>sensor_id = ''SENSOR_B'', sensor_name = ''Sensor B (Mid)'', location = ''Segment B-C'',
      lat = 51.508, lng = - 0.12, status = Normal, pressure = 74, flow = 350, temp = 32,
      vibration = 0.02, corrosion = 0.01, acoustic = None\<rparr>,
     \<lparr>sensor_id = ''SENSOR_C'', sensor_name = ''Sensor C (Crit)'', location = ''Segment C-D'',
      lat = 51.512, lng = - 0.09, status = Normal, pressure = 73, flow = 350, temp = 32,
      vibration = 0.02, corrosion = 0.01, acoustic = None\<rparr>,
     \<lparr>sensor_id = ''SENSOR_D'', sensor_name = ''Sensor D (Down)'', location = ''Segment D-E'',
      lat = 51.509, lng = - 0.06, status = Normal, pressure = 72, flow = 350, temp = 32,
      vibration = 0.02, corrosion = 0.01, acoustic = None\<rparr>,
     \<lparr>sensor_id = ''SENSOR_E'', sensor_name = ''Sensor E (Out)'', location = ''Segment D-E'',
      lat = 51.506, lng = - 0.03, status = Normal, pressure = 71, flow = 350, temp = 32,
      vibration = 0.02, corrosion = 0.01, acoustic = None\<rparr>]"

text \<open>The \<open>useState\<close> initialisers of \<open>SensorProvider\<close>; no timer is pending at mount.\<close>

definition INITIAL_STATE :: state where
  "INITIAL_STATE =
    \<lparr>sensors = INITIAL_SENSORS,
     segmentHealth = [''A-B'' \<mapsto> 100, ''B-C'' \<mapsto> 100, ''C-D'' \<mapsto> 100, ''D-E'' \<mapsto> 100],
     systemHealth = Some 100,
     systemHealthDetails = [],
     isLive = True,
     history = [],
     clock = 0,
     timers = []\<rparr>"

subsection \<open>\<open>handleBackendUpdate\<close>\<close>

text \<open>\<open>data\<close> is \<open>None\<close> for a falsy message; a message without \<open>system_health\<close> changes
  nothing. Otherwise the details are stored, the average of the coalesced scores is
  published and the segment map is rebuilt from the coalesced scores.\<close>

definition handleBackendUpdate :: "backend_data option \<Rightarrow> state \<Rightarrow> state" where
  "handleBackendUpdate data s =
     (case data of
        None \<Rightarrow> s
      | Some d \<Rightarrow>
         (case system_health d of
            None \<Rightarrow> s
          | Some sh \<Rightarrow>
             (let scores = map (\<lambda>(seg, det). js_or (health_score det) 100) sh;
                  avgScore = (if scores = [] then None
                              else Some (foldl (+) 0 scores / real (length scores)));
                  segHealth = foldl (\<lambda>m (seg, det). m(seg \<mapsto> js_or (health_score det) 100))
                                Map.empty sh
              in s\<lparr>systemHealthDetails := sh, systemHealth := avgScore,
                    segmentHealth := segHealth\<rparr>)))"

subsection \<open>\<open>simulateFluidMetrics\<close>: one node of the cascade\<close>

text \<open>Lines 131 to 134: the segment a sensor reads its health from.\<close>

definition segmentId_of :: "string \<Rightarrow> string" where
  "segmentId_of sid =
     (let segmentId = ''A-B'';
          segmentId = (if sid = ''SENSOR_B'' then ''B-C'' else segmentId);
          segmentId = (if sid = ''SENSOR_C'' then ''C-D'' else segmentId);
          segmentId = (if sid = ''SENSOR_D'' \<or> sid = ''SENSOR_E'' then ''D-E'' else segmentId)
      in segmentId)"

text \<open>Line 136: \<open>currentHealth[segmentId] || 100\<close>.\<close>

definition health_of :: "(string \<rightharpoonup> real) \<Rightarrow> string \<Rightarrow> real" where
  "health_of currentHealth segmentId = js_or (currentHealth segmentId) 100"

text \<open>Lines 143 to 147.\<close>

definition hasDriver :: "details \<Rightarrow> string \<Rightarrow> string \<Rightarrow> bool" where
  "hasDriver dets segmentId drv =
     (case map_of dets segmentId of
        None \<Rightarrow> False
      | Some segDetails \<Rightarrow>
         (case drivers segDetails of
            None \<Rightarrow> False
          | Some ds \<Rightarrow> list_ex (\<lambda>d. str_includes (toLowerCase (name d)) drv) ds))"

definition damage_of :: "real \<Rightarrow> real" where
  "damage_of health = (100 - health) / 100"

definition isLeak_of :: "details \<Rightarrow> string \<Rightarrow> bool" where
  "isLeak_of dets seg = (hasDriver dets seg ''leak'' \<or> hasDriver dets seg ''failure'')"

definition isBlockage_of :: "details \<Rightarrow> string \<Rightarrow> bool" where
  "isBlockage_of dets seg = (hasDriver dets seg ''clog'' \<or> hasDriver dets seg ''buildup'')"

definition isCorrosion_of :: "details \<Rightarrow> string \<Rightarrow> bool" where
  "isCorrosion_of dets seg = hasDriver dets seg ''corrosion''"

text \<open>Lines 164 to 181: the losses of one node applied to the stream.\<close>

definition stream_step :: "bool \<Rightarrow> bool \<Rightarrow> bool \<Rightarrow> real \<Rightarrow> stream \<Rightarrow> stream" where
  "stream_step isLeak isBlockage isCritical damage st =
     (let frictionLoss = 0.8;
          leakPressureDrop = 0;
          leakFlowLoss = 0;
          (leakPressureDrop, leakFlowLoss) =
             (if isLeak \<or> isCritical then (damage * 25.0, damage * 40.0)
              else (leakPressureDrop, leakFlowLoss));
          (leakPressureDrop, streamPressure0) =
             (if isBlockage then (0, streamPressure st + damage * 5)
              else (leakPressureDrop, streamPressure st))
      in \<lparr>streamPressure = max 0 (streamPressure0 - frictionLoss - leakPressureDrop),
          streamFlow = max 0 (streamFlow st - leakFlowLoss)\<rparr>)"

text \<open>Lines 184 to 194: the node-local targets.\<close>

definition targetVib_of :: "bool \<Rightarrow> bool \<Rightarrow> bool \<Rightarrow> real \<Rightarrow> real" where
  "targetVib_of hasVibration isBlockage isCritical damage =
     (let targetVib = 0.02;
          targetVib = (if hasVibration \<or> isCritical then targetVib + damage * 0.8 else targetVib);
          targetVib = (if isBlockage then targetVib + 0.3 else targetVib)
      in targetVib)"

definition targetCorrosion_of :: "bool \<Rightarrow> bool \<Rightarrow> real \<Rightarrow> real" where
  "targetCorrosion_of isCorrosion isCritical damage =
     (let targetCorrosion = 0.01;
          targetCorrosion = (if isCorrosion \<or> isCritical then targetCorrosion + damage * 0.6
                             else targetCorrosion)
      in targetCorrosion)"

definition targetAcoustic_of :: "bool \<Rightarrow> bool \<Rightarrow> real \<Rightarrow> real" where
  "targetAcoustic_of isLeak isBlockage damage =
     (let targetAcoustic = 40;
          targetAcoustic = (if isLeak then targetAcoustic + damage * 50 else targetAcoustic);
          targetAcoustic = (if isBlockage then targetAcoustic + damage * 20 else targetAcoustic)
      in targetAcoustic)"

text \<open>Lines 197 to 199.\<close>

definition status_of :: "bool \<Rightarrow> bool \<Rightarrow> status" where
  "status_of isWarning isCritical =
     (let st = Normal;
          st = (if isWarning then Warning else st);
          st = (if isCritical then Critical else st)
      in st)"

text \<open>Lines 204 to 207: the four noise terms, from the draws and \<open>chaos = damage\<close>.\<close>

definition noiseP_of :: "draws \<Rightarrow> real \<Rightarrow> real" where
  "noiseP_of r chaos = (rP r - 0.5) * (0.8 + chaos * 3)"

definition noiseF_of :: "draws \<Rightarrow> real \<Rightarrow> real" where
  "noiseF_of r chaos = (rF r - 0.5) * (2.0 + chaos * 8)"

definition noiseV_of :: "draws \<Rightarrow> real \<Rightarrow> real" where
  "noiseV_of r chaos = rV r * (0.005 + chaos * 0.05)"

definition noiseA_of :: "draws \<Rightarrow> real \<Rightarrow> real" where
  "noiseA_of r chaos = (rA r - 0.5) * (0.5 + chaos * 2)"

text \<open>Lines 211 to 214. \<open>!prev && prev !== 0\<close> holds for a missing previous value.\<close>

definition smooth :: "real option \<Rightarrow> real \<Rightarrow> real" where
  "smooth prev target =
     (case prev of None \<Rightarrow> target | Some p \<Rightarrow> (p * 0.9) + (target * 0.1))"

text \<open>The callback of \<open>prevSensors.map\<close>: the new sensor object and the stream handed to
  the next node.\<close>

definition simulate_node ::
  "(string \<rightharpoonup> real) \<Rightarrow> details \<Rightarrow> stream \<Rightarrow> draws \<Rightarrow> sensor \<Rightarrow> sensor \<times> stream" where
  "simulate_node currentHealth dets st r s =
     (let segmentId = segmentId_of (sensor_id s);
          health = health_of currentHealth segmentId;
          isCritical = health < 75;
          isWarning = health < 90;
          damage = damage_of health;
          isLeak = isLeak_of dets segmentId;
          isBlockage = isBlockage_of dets segmentId;
          isCorrosion = isCorrosion_of dets segmentId;
          st' = stream_step isLeak isBlockage isCritical damage st;
          targetVib = targetVib_of (hasDriver dets segmentId ''vibration'') isBlockage isCritical damage;
          targetCorrosion = targetCorrosion_of isCorrosion isCritical damage;
          targetAcoustic = targetAcoustic_of isLeak isBlockage damage;
          chaos = damage
      in (s\<lparr>pressure := toFixed 2 (max 0 (smooth (Some (pressure s)) (streamPressure st' + noiseP_of r chaos))),
            flow := toFixed 1 (max 0 (smooth (Some (flow s)) (streamFlow st' + noiseF_of r chaos))),
            temp := toFixed 1 (smooth (Some (temp s)) (32 + damage * 5 + (rT r - 0.5))),
            vibration := toFixed 3 (smooth (Some (vibration s)) (targetVib + noiseV_of r chaos)),
            acoustic := Some (toFixed 1 (smooth (acoustic s) (targetAcoustic + noiseA_of r chaos))),
            corrosion := toFixed 4 targetCorrosion,
            status := status_of isWarning isCritical\<rparr>,
          st'))"

subsection \<open>\<open>simulateFluidMetrics\<close>: the cascade and the history buffer\<close>

text \<open>\<open>prevSensors.map\<close> with the stream threaded through; node \<open>i\<close> consumes the draws
  \<open>rnd i\<close>. The result pairs every new sensor with the stream after it.\<close>

fun cascade ::
  "(string \<rightharpoonup> real) \<Rightarrow> details \<Rightarrow> (nat \<Rightarrow> draws) \<Rightarrow> nat \<Rightarrow> stream \<Rightarrow> sensor list
     \<Rightarrow> (sensor \<times> stream) list" where
  "cascade currentHealth dets rnd i st [] = []"
| "cascade currentHealth dets rnd i st (s # ss) =
     (let (s', st') = simulate_node currentHealth dets st (rnd i) s
      in (s', st') # cascade currentHealth dets rnd (Suc i) st' ss)"

definition SOURCE :: stream where
  "SOURCE = \<lparr>streamPressure = 80.0, streamFlow = 355.0\<rparr>"

text \<open>Lines 239 to 246: the entry built from \<open>currentSensors[0]\<close> and the time string
  \<open>now\<close> of \<open>new Date().toLocaleTimeString()\<close>.\<close>

definition history_entry_of :: "string \<Rightarrow> sensor \<Rightarrow> history_entry" where
  "history_entry_of now s0 =
     \<lparr>h_timestamp = now, h_pressure = pressure s0, h_flow = flow s0, h_temp = temp s0\<rparr>"

text \<open>Lines 235 to 250. \<open>currentSensors[0].pressure\<close> throws on an empty array.\<close>

definition updateHistory ::
  "sensor list \<Rightarrow> string \<Rightarrow> history_entry list \<Rightarrow> error + history_entry list" where
  "updateHistory currentSensors now prev =
     (case currentSensors of
        [] \<Rightarrow> Inl TypeError
      | s0 # _ \<Rightarrow>
         (let entry = history_entry_of now s0;
              updated = prev @ [entry]
          in Inr (slice_last 30 updated)))"

definition simulateFluidMetrics :: "(nat \<Rightarrow> draws) \<Rightarrow> string \<Rightarrow> state \<Rightarrow> error + state" where
  "simulateFluidMetrics rnd now s =
     (let newSensors = map fst (cascade (segmentHealth s) (systemHealthDetails s) rnd 0 SOURCE
                                  (sensors s))
      in case updateHistory newSensors now (history s) of
           Inl e \<Rightarrow> Inl e
         | Inr h \<Rightarrow> Inr (s\<lparr>sensors := newSensors, history := h\<rparr>))"

text \<open>The interval callback of lines 108 to 112.\<close>

definition tick :: "(nat \<Rightarrow> draws) \<Rightarrow> string \<Rightarrow> state \<Rightarrow> error + state" where
  "tick rnd now s = (if isLive s then simulateFluidMetrics rnd now s else Inr s)"

subsection \<open>\<open>runDiagnostics\<close> and the timer queue\<close>

text \<open>What the promise of \<open>runDiagnostics\<close> is: already resolved with \<open>'paused'\<close>, or
  pending until the timeout with the given deadline fires, then resolved with
  \<open>'started'\<close>.\<close>

datatype diag_promise = ResolvedPaused | PendingStarted nat

definition runDiagnostics :: "state \<Rightarrow> diag_promise \<times> state" where
  "runDiagnostics s =
     (if isLive s then (ResolvedPaused, s\<lparr>isLive := False\<rparr>)
      else (PendingStarted (clock s + 6000), s\<lparr>timers := timers s @ [clock s + 6000]\<rparr>))"

text \<open>\<open>d\<close> ms pass: every timeout that is due runs its callback \<open>setIsLive(true)\<close> and
  leaves the queue.\<close>

definition advance :: "nat \<Rightarrow> state \<Rightarrow> state" where
  "advance d s =
     (let now = clock s + d;
          due = filter (\<lambda>t. t \<le> now) (timers s)
      in s\<lparr>clock := now,
            isLive := (if due = [] then isLive s else True),
            timers := filter (\<lambda>t. \<not> t \<le> now) (timers s)\<rparr>)"


text \<open>\<open>setIsLive\<close> is handed to the pages as it is.\<close>

definition setIsLive :: "bool \<Rightarrow> state \<Rightarrow> state" where
  "setIsLive b s = s\<lparr>isLive := b\<rparr>"

subsection \<open>Runs of the provider\<close>

datatype event =
    Tick "nat \<Rightarrow> draws" string
  | BackendUpdate "backend_data option"
  | RunDiagnostics
  | SetIsLive bool
  | Advance nat

fun step :: "event \<Rightarrow> state \<Rightarrow> error + state" where
  "step (Tick rnd now) s = tick rnd now s"
| "step (BackendUpdate data) s = Inr (handleBackendUpdate data s)"
| "step RunDiagnostics s = Inr (snd (runDiagnostics s))"
| "step (SetIsLive b) s = Inr (setIsLive b s)"
| "step (Advance d) s = Inr (advance d s)"

fun run :: "event list \<Rightarrow> state \<Rightarrow> error + state" where
  "run [] s = Inr s"
| "run (e # es) s = (case step e s of Inl err \<Rightarrow> Inl err | Inr s' \<Rightarrow> run es s')"

subsection \<open>Reference definitions and concrete inputs\<close>

text \<open>The status classification in the specification's words: critical below 75,
  otherwise warning below 90, otherwise normal.\<close>

definition spec_status :: "real \<Rightarrow> status" where
  "spec_status health = (if health < 75 then Critical else if health < 90 then Warning else Normal)"

text \<open>Draws that make every centred noise term vanish.\<close>

definition draws0 :: draws where
  "draws0 = \<lparr>rP = 0.5, rF = 0.5, rV = 0.5, rA = 0.5, rT = 0.5\<rparr>"

text \<open>Readings and stream values that are not negative.\<close>

definition nonneg_reading :: "sensor \<Rightarrow> bool" where
  "nonneg_reading s = (0 \<le> pressure s \<and> 0 \<le> flow s)"

definition nonneg_stream :: "stream \<Rightarrow> bool" where
  "nonneg_stream st = (0 \<le> streamPressure st \<and> 0 \<le> streamFlow st)"

text \<open>The unbounded log a run would have written: one entry for every tick that found
  \<open>isLive\<close> set, built from the time string of the tick and the first sensor of the
  array the tick published, in the order of the ticks.\<close>

fun entries_of :: "event list \<Rightarrow> state \<Rightarrow> history_entry list" where
  "entries_of [] s = []"
| "entries_of (e # es) s =
     (case step e s of
        Inl _ \<Rightarrow> []
      | Inr s' \<Rightarrow>
          (case e of
             Tick rnd now \<Rightarrow>
               (if isLive s
                then [\<lparr>h_timestamp = now, h_pressure = pressure (hd (sensors s')),
                       h_flow = flow (hd (sensors s')), h_temp = temp (hd (sensors s'))\<rparr>]
                else [])
           | _ \<Rightarrow> []) @ entries_of es s')"

text \<open>A degraded feed: every segment at health 1 with a leak driver.\<close>

definition leaky_health :: "string \<rightharpoonup> real" where
  "leaky_health = [''A-B'' \<mapsto> 1, ''B-C'' \<mapsto> 1, ''C-D'' \<mapsto> 1, ''D-E'' \<mapsto> 1]"

definition leaky_details :: details where
  "leaky_details =
     (let d = \<lparr>health_score = Some 1, drivers = Some [\<lparr>name = ''Seal Leak''\<rparr>]\<rparr>
      in [(''A-B'', d), (''B-C'', d), (''C-D'', d), (''D-E'', d)])"

text \<open>Draws at the low end of \<open>Math.random()\<close>.\<close>

definition draws_min :: draws where
  "draws_min = \<lparr>rP = 0, rF = 0, rV = 0, rA = 0, rT = 0\<rparr>"

text \<open>A state whose history buffer is full.\<close>

definition old_entry :: history_entry where
  "old_entry = \<lparr>h_timestamp = ''11:59:00'', h_pressure = 75, h_flow = 350, h_temp = 32\<rparr>"

definition full_state :: state where
  "full_state = INITIAL_STATE\<lparr>history := replicate 30 old_entry\<rparr>"

text \<open>The health at which the engine computes damage \<open>d\<close>.\<close>

definition health_at_damage :: "real \<Rightarrow> real" where
  "health_at_damage d = 100 - 100 * d"

text \<open>A segment record with a score of 0 replaced by no score at all.\<close>

definition forget_zero :: "seg_details \<Rightarrow> seg_details" where
  "forget_zero det =
     det\<lparr>health_score := (if health_score det = Some 0 then None else health_score det)\<rparr>"

text \<open>A websocket message that carries \<open>system_health\<close>.\<close>

definition feed :: "details \<Rightarrow> backend_data option" where
  "feed sh = Some \<lparr>system_health = Some sh\<rparr>"

text \<open>A feed that reports the worst score for segment C-D.\<close>

definition zero_feed :: details where
  "zero_feed = [(''C-D'', \<lparr>health_score = Some 0, drivers = Some [\<lparr>name = ''Seal Leak''\<rparr>]\<rparr>)]"

text \<open>The scenario of a clogged segment C-D at health 40, the rest healthy.\<close>

definition clog_health :: "string \<rightharpoonup> real" where
  "clog_health = [''A-B'' \<mapsto> 100, ''B-C'' \<mapsto> 100, ''C-D'' \<mapsto> 40, ''D-E'' \<mapsto> 100]"

definition clog_details :: details where
  "clog_details =
     [(''A-B'', \<lparr>health_score = Some 100, drivers = Some []\<rparr>),
      (''B-C'', \<lparr>health_score = Some 100, drivers = Some []\<rparr>),
      (''C-D'', \<lparr>health_score = Some 40, drivers = Some [\<lparr>name = ''Sediment Clog''\<rparr>]\<rparr>),
      (''D-E'', \<lparr>health_score = Some 100, drivers = Some []\<rparr>)]"

text \<open>Sensor C as a tick at health 40 leaves its corrosion reading.\<close>

definition worn_sensor :: sensor where
  "worn_sensor = (INITIAL_SENSORS ! 2)\<lparr>corrosion := 0.37, status := Critical\<rparr>"






section \<open>Properties\<close>

subsection \<open>Status classification\<close>

lemma status_of_spec: "status_of (h < 90) (h < 75) = spec_status h"
  by (simp add: status_of_def spec_status_def)

lemma simulate_node_status:
  "status (fst (simulate_node currentHealth dets st r s)) =
     spec_status (health_of currentHealth (segmentId_of (sensor_id s)))"
  by (simp add: simulate_node_def Let_def status_of_spec)


subsection \<open>Projections of a node and of the cascade\<close>

lemma simulate_node_stream:
  "snd (simulate_node h dets st r s) =
     stream_step (isLeak_of dets (segmentId_of (sensor_id s)))
       (isBlockage_of dets (segmentId_of (sensor_id s)))
       (health_of h (segmentId_of (sensor_id s)) < 75)
       (damage_of (health_of h (segmentId_of (sensor_id s)))) st"
  by (simp add: simulate_node_def Let_def)

lemma cascade_Cons:
  "cascade h dets rnd i st (s # ss) =
     simulate_node h dets st (rnd i) s #
     cascade h dets rnd (Suc i) (snd (simulate_node h dets st (rnd i) s)) ss"
  by (simp add: case_prod_unfold Let_def)

lemma cascade_streams_Cons:
  "map snd (cascade h dets rnd i st (s # ss)) =
     snd (simulate_node h dets st (rnd i) s) #
     map snd (cascade h dets rnd (Suc i) (snd (simulate_node h dets st (rnd i) s)) ss)"
  by (simp add: case_prod_unfold Let_def)

lemma segmentId_of_simps:
  "segmentId_of ''SENSOR_A'' = ''A-B''" "segmentId_of ''SENSOR_B'' = ''B-C''"
  "segmentId_of ''SENSOR_C'' = ''C-D''" "segmentId_of ''SENSOR_D'' = ''D-E''"
  "segmentId_of ''SENSOR_E'' = ''D-E''"
  by (simp_all add: segmentId_of_def)

lemma stream_step_leak:
  "stream_step True False c d \<lparr>streamPressure = p, streamFlow = f\<rparr> =
     \<lparr>streamPressure = max 0 (p - 0.8 - d * 25), streamFlow = max 0 (f - d * 40)\<rparr>"
  by (simp add: stream_step_def)

lemma stream_step_healthy:
  "stream_step False False False d \<lparr>streamPressure = p, streamFlow = f\<rparr> =
     \<lparr>streamPressure = max 0 (p - 0.8), streamFlow = max 0 f\<rparr>"
  by (simp add: stream_step_def)

lemma leaky_facts:
  "seg \<in> {''A-B'', ''B-C'', ''C-D'', ''D-E''} \<Longrightarrow> isLeak_of leaky_details seg"
  "seg \<in> {''A-B'', ''B-C'', ''C-D'', ''D-E''} \<Longrightarrow> \<not> isBlockage_of leaky_details seg"
  "seg \<in> {''A-B'', ''B-C'', ''C-D'', ''D-E''} \<Longrightarrow> health_of leaky_health seg = 1"
  by (auto simp: leaky_details_def leaky_health_def isLeak_of_def isBlockage_of_def hasDriver_def
      health_of_def js_or_def toLowerCase_def toLowerCase_char_def Let_def)

lemma leaky_streams:
  "map snd (cascade leaky_health leaky_details (\<lambda>_. draws_min) 0 SOURCE INITIAL_SENSORS) =
    [\<lparr>streamPressure = 54.45, streamFlow = 315.4\<rparr>, \<lparr>streamPressure = 28.9, streamFlow = 275.8\<rparr>,
     \<lparr>streamPressure = 3.35, streamFlow = 236.2\<rparr>, \<lparr>streamPressure = 0, streamFlow = 196.6\<rparr>,
     \<lparr>streamPressure = 0, streamFlow = 157\<rparr>]"
  unfolding INITIAL_SENSORS_def SOURCE_def
  by (simp only: cascade_streams_Cons simulate_node_stream)
     (simp add: segmentId_of_simps leaky_facts stream_step_leak damage_of_def)

lemma simulate_node_fields:
  "pressure (fst (simulate_node h dets st r s)) =
     toFixed 2 (max 0 (smooth (Some (pressure s))
       (streamPressure (snd (simulate_node h dets st r s)) +
        noiseP_of r (damage_of (health_of h (segmentId_of (sensor_id s)))))))"
  "flow (fst (simulate_node h dets st r s)) =
     toFixed 1 (max 0 (smooth (Some (flow s))
       (streamFlow (snd (simulate_node h dets st r s)) +
        noiseF_of r (damage_of (health_of h (segmentId_of (sensor_id s)))))))"
  "temp (fst (simulate_node h dets st r s)) =
     toFixed 1 (smooth (Some (temp s))
       (32 + damage_of (health_of h (segmentId_of (sensor_id s))) * 5 + (rT r - 0.5)))"
  by (simp_all add: simulate_node_def Let_def)

lemma simulate_node_local_fields:
  "vibration (fst (simulate_node h dets st r s)) =
     toFixed 3 (smooth (Some (vibration s))
       (targetVib_of (hasDriver dets (segmentId_of (sensor_id s)) ''vibration'')
          (isBlockage_of dets (segmentId_of (sensor_id s)))
          (health_of h (segmentId_of (sensor_id s)) < 75)
          (damage_of (health_of h (segmentId_of (sensor_id s)))) +
        noiseV_of r (damage_of (health_of h (segmentId_of (sensor_id s))))))"
  "acoustic (fst (simulate_node h dets st r s)) =
     Some (toFixed 1 (smooth (acoustic s)
       (targetAcoustic_of (isLeak_of dets (segmentId_of (sensor_id s)))
          (isBlockage_of dets (segmentId_of (sensor_id s)))
          (damage_of (health_of h (segmentId_of (sensor_id s)))) +
        noiseA_of r (damage_of (health_of h (segmentId_of (sensor_id s)))))))"
  "corrosion (fst (simulate_node h dets st r s)) =
     toFixed 4 (targetCorrosion_of (isCorrosion_of dets (segmentId_of (sensor_id s)))
          (health_of h (segmentId_of (sensor_id s)) < 75)
          (damage_of (health_of h (segmentId_of (sensor_id s)))))"
  by (simp_all add: simulate_node_def Let_def)

lemma simulate_node_id: "sensor_id (fst (simulate_node h dets st r s)) = sensor_id s"
  by (simp add: simulate_node_def Let_def)

lemma no_details_facts:
  "hasDriver [] seg drv = False" "isLeak_of [] seg = False" "isBlockage_of [] seg = False"
  "isCorrosion_of [] seg = False"
  by (simp_all add: hasDriver_def isLeak_of_def isBlockage_of_def isCorrosion_of_def)

lemma initial_health:
  "seg \<in> {''A-B'', ''B-C'', ''C-D'', ''D-E''} \<Longrightarrow>
     health_of (segmentHealth INITIAL_STATE) seg = 100"
  by (auto simp: INITIAL_STATE_def health_of_def js_or_def)

lemma first_node_initial:
  "history_entry_of now
     (fst (simulate_node (segmentHealth INITIAL_STATE) [] SOURCE draws0 (hd INITIAL_SENSORS)))
    = \<lparr>h_timestamp = now, h_pressure = 75.42, h_flow = 350.5, h_temp = 32\<rparr>"
  unfolding history_entry_of_def simulate_node_fields simulate_node_stream
  by (simp add: INITIAL_SENSORS_def segmentId_of_simps initial_health no_details_facts SOURCE_def
      stream_step_healthy damage_of_def noiseP_of_def noiseF_of_def draws0_def smooth_def
      toFixed_def)

subsection \<open>Pressure and flow are never negative\<close>

lemma toFixed_nonneg: "0 \<le> x \<Longrightarrow> 0 \<le> toFixed digits x"
  by (simp add: toFixed_def)

lemma stream_step_nonneg: "nonneg_stream (stream_step l b c d st)"
  by (simp add: stream_step_def nonneg_stream_def Let_def split: prod.splits)

lemma simulate_node_nonneg:
  "nonneg_reading (fst (simulate_node h dets st r s)) \<and>
   nonneg_stream (snd (simulate_node h dets st r s))"
  by (simp add: simulate_node_def Let_def nonneg_reading_def toFixed_nonneg stream_step_nonneg)

lemma cascade_nonneg:
  "list_all (\<lambda>(s', st'). nonneg_reading s' \<and> nonneg_stream st') (cascade h dets rnd i st ss)"
proof (induction ss arbitrary: i st)
  case Nil
  show ?case by simp
next
  case (Cons s ss)
  obtain s' st' where step: "simulate_node h dets st (rnd i) s = (s', st')"
    by (cases "simulate_node h dets st (rnd i) s")
  from simulate_node_nonneg [of h dets st "rnd i" s] step
  have "nonneg_reading s' \<and> nonneg_stream st'" by simp
  with Cons.IH [of "Suc i" st'] step show ?case by simp
qed

lemma length_cascade: "length (cascade h dets rnd i st ss) = length ss"
  by (induction ss arbitrary: i st) (auto split: prod.splits)

lemma cascade_Nil_iff: "cascade h dets rnd i st ss = [] \<longleftrightarrow> ss = []"
  using length_cascade [of h dets rnd i st ss] by (metis length_0_conv)

text \<open>A tick on a non-empty sensor array returns; it replaces the sensors by the
  cascade's and appends one entry to the history.\<close>

lemma simulateFluidMetrics_ok:
  assumes "sensors s \<noteq> []"
  shows "\<exists>s'. simulateFluidMetrics rnd now s = Inr s' \<and>
           sensors s' = map fst (cascade (segmentHealth s) (systemHealthDetails s) rnd 0 SOURCE
                                   (sensors s)) \<and>
           history s' = slice_last 30 (history s @ [history_entry_of now (hd (sensors s'))]) \<and>
           isLive s' = isLive s \<and> clock s' = clock s \<and> timers s' = timers s \<and>
           segmentHealth s' = segmentHealth s \<and> systemHealthDetails s' = systemHealthDetails s"
proof -
  let ?ns = "map fst (cascade (segmentHealth s) (systemHealthDetails s) rnd 0 SOURCE (sensors s))"
  from assms have "?ns \<noteq> []" by (simp add: cascade_Nil_iff)
  then obtain x xs where ns: "?ns = x # xs" by (cases ?ns) auto
  then show ?thesis
    by (simp add: simulateFluidMetrics_def updateHistory_def Let_def)
qed

lemma step_ok:
  assumes "sensors s \<noteq> []"
  shows "\<exists>s'. step e s = Inr s' \<and> sensors s' \<noteq> [] \<and>
           history s' =
             (case e of
                Tick rnd now \<Rightarrow>
                  (if isLive s then slice_last 30 (history s @ [history_entry_of now (hd (sensors s'))])
                   else history s)
              | _ \<Rightarrow> history s)"
proof (cases e)
  case (Tick rnd now)
  show ?thesis
  proof (cases "isLive s")
    case True
    from simulateFluidMetrics_ok [OF assms, of rnd now]
    obtain s' where s': "simulateFluidMetrics rnd now s = Inr s'"
      "sensors s' = map fst (cascade (segmentHealth s) (systemHealthDetails s) rnd 0 SOURCE
                               (sensors s))"
      "history s' = slice_last 30 (history s @ [history_entry_of now (hd (sensors s'))])"
      by blast
    from s'(2) assms have "sensors s' \<noteq> []" by (simp add: cascade_Nil_iff)
    with s' True Tick show ?thesis by (simp add: tick_def)
  next
    case False
    with Tick assms show ?thesis by (simp add: tick_def)
  qed
qed (use assms in \<open>simp_all add: handleBackendUpdate_def runDiagnostics_def setIsLive_def
       advance_def Let_def split: option.splits\<close>)

lemma step_nonneg:
  assumes "sensors s \<noteq> []" and "list_all nonneg_reading (sensors s)"
  shows "\<exists>s'. step e s = Inr s' \<and> sensors s' \<noteq> [] \<and> list_all nonneg_reading (sensors s')"
proof (cases e)
  case (Tick rnd now)
  show ?thesis
  proof (cases "isLive s")
    case True
    from simulateFluidMetrics_ok [OF assms(1), of rnd now]
    obtain s' where s': "simulateFluidMetrics rnd now s = Inr s'"
      "sensors s' = map fst (cascade (segmentHealth s) (systemHealthDetails s) rnd 0 SOURCE
                               (sensors s))"
      by blast
    from s'(2) assms(1) have ne: "sensors s' \<noteq> []" by (simp add: cascade_Nil_iff)
    from cascade_nonneg [of "segmentHealth s" "systemHealthDetails s" rnd 0 SOURCE "sensors s"]
    have "list_all nonneg_reading (sensors s')"
      unfolding s'(2) by (auto simp: list_all_iff)
    with s'(1) ne True Tick show ?thesis by (simp add: tick_def)
  next
    case False
    with Tick assms show ?thesis by (simp add: tick_def)
  qed
qed (use assms in \<open>simp_all add: handleBackendUpdate_def runDiagnostics_def setIsLive_def
       advance_def Let_def split: option.splits\<close>)

lemma run_nonneg:
  assumes "sensors s \<noteq> []" and "list_all nonneg_reading (sensors s)"
  shows "\<exists>s'. run es s = Inr s' \<and> list_all nonneg_reading (sensors s')"
  using assms
proof (induction es arbitrary: s)
  case Nil
  then show ?case by simp
next
  case (Cons e es)
  from step_nonneg [OF Cons.prems, of e]
  obtain s1 where s1: "step e s = Inr s1" "sensors s1 \<noteq> []" "list_all nonneg_reading (sensors s1)"
    by blast
  from Cons.IH [OF s1(2,3)] s1(1) show ?case by simp
qed

lemma INITIAL_STATE_sensors: "sensors INITIAL_STATE = INITIAL_SENSORS"
  by (simp add: INITIAL_STATE_def)

lemma INITIAL_SENSORS_nonempty: "INITIAL_SENSORS \<noteq> []"
  by (simp add: INITIAL_SENSORS_def)

lemma INITIAL_SENSORS_nonneg: "list_all nonneg_reading INITIAL_SENSORS"
  by (simp add: INITIAL_SENSORS_def nonneg_reading_def)

text \<open>
  C6. Whatever the health map, the drivers and the draws, every node of a tick
  publishes a pressure and a flow that are not negative, and the stream it hands to the
  next node has been clamped to non-negative pressure and flow. Hence every run of the
  provider from its initial state returns, and all published pressure and flow readings
  of the state it reaches are non-negative.
\<close>

theorem pressure_flow_nonnegative:
  "list_all (\<lambda>(s', st'). nonneg_reading s' \<and> nonneg_stream st')
     (cascade currentHealth dets rnd i st ss) \<and>
   (\<exists>s. run es INITIAL_STATE = Inr s \<and> list_all nonneg_reading (sensors s))"
  using cascade_nonneg [of currentHealth dets rnd i st ss]
    run_nonneg [of INITIAL_STATE es]
  by (simp add: INITIAL_STATE_sensors INITIAL_SENSORS_nonempty INITIAL_SENSORS_nonneg)

theorem pressure_flow_nonnegative_witness:
  "list_all (\<lambda>(s', st'). nonneg_reading s' \<and> nonneg_stream st')
     (cascade leaky_health leaky_details (\<lambda>_. draws_min) 0 SOURCE INITIAL_SENSORS) \<and>
   map (streamPressure \<circ> snd)
     (cascade leaky_health leaky_details (\<lambda>_. draws_min) 0 SOURCE INITIAL_SENSORS)
     = [54.45, 28.9, 3.35, 0, 0]"
  using pressure_flow_nonnegative
    [of leaky_health leaky_details "\<lambda>_. draws_min" 0 SOURCE INITIAL_SENSORS "[]"]
    leaky_streams
  by (simp flip: map_map)

subsection \<open>The history buffer\<close>

lemma slice_last_length: "length (slice_last n xs) = min n (length xs)"
  by (simp add: slice_last_def)

lemma slice_last_append:
  "slice_last n (slice_last n xs @ ys) = slice_last n (xs @ ys)"
proof (cases "length xs \<le> n")
  case True
  then show ?thesis by (simp add: slice_last_def)
next
  case False
  then have eq: "length xs + length ys - (length xs - n + n) + (length xs - n) =
                 length xs + length ys - n" by arith
  from False show ?thesis by (simp add: slice_last_def eq add.commute)
qed

lemma slice_last_id: "length xs \<le> n \<Longrightarrow> slice_last n xs = xs"
  by (simp add: slice_last_def)

lemma entries_of_Cons:
  "entries_of (e # es) s =
     (case step e s of
        Inl _ \<Rightarrow> []
      | Inr s' \<Rightarrow>
          (case e of
             Tick rnd now \<Rightarrow> (if isLive s then [history_entry_of now (hd (sensors s'))] else [])
           | _ \<Rightarrow> []) @ entries_of es s')"
  unfolding history_entry_of_def by simp

text \<open>The buffer of a run is the last 30 entries of what the run has logged.\<close>

lemma run_history:
  assumes "sensors s \<noteq> []" and "length (history s) \<le> 30"
  shows "\<exists>s'. run es s = Inr s' \<and> sensors s' \<noteq> [] \<and>
           history s' = slice_last 30 (history s @ entries_of es s)"
  using assms
proof (induction es arbitrary: s)
  case Nil
  then show ?case by (simp add: slice_last_id)
next
  case (Cons e es)
  from step_ok [OF Cons.prems(1), of e]
  obtain s1 where s1: "step e s = Inr s1" "sensors s1 \<noteq> []"
    "history s1 =
       (case e of
          Tick rnd now \<Rightarrow>
            (if isLive s then slice_last 30 (history s @ [history_entry_of now (hd (sensors s1))])
             else history s)
        | _ \<Rightarrow> history s)"
    by blast
  let ?new = "(case e of
                 Tick rnd now \<Rightarrow> (if isLive s then [history_entry_of now (hd (sensors s1))] else [])
               | _ \<Rightarrow> [])"
  have h1: "history s1 = slice_last 30 (history s @ ?new)"
    using s1(3) Cons.prems(2) by (cases e) (simp_all add: slice_last_id)
  then have len: "length (history s1) \<le> 30" by (simp add: slice_last_length)
  from Cons.IH [OF s1(2) len]
  obtain s' where s': "run es s1 = Inr s'" "sensors s' \<noteq> []"
    "history s' = slice_last 30 (history s1 @ entries_of es s1)"
    by blast
  have "history s' = slice_last 30 ((history s @ ?new) @ entries_of es s1)"
    using s'(3) h1 by (simp only: slice_last_append)
  with s1(1) s'(1,2) show ?case by (simp add: entries_of_Cons del: entries_of.simps)
qed

lemma run_history_initial:
  "\<exists>s. run es INITIAL_STATE = Inr s \<and>
       history s = slice_last 30 (entries_of es INITIAL_STATE) \<and>
       length (history s) = min 30 (length (entries_of es INITIAL_STATE)) \<and>
       length (history s) \<le> 30"
proof -
  have "sensors INITIAL_STATE \<noteq> []" "length (history INITIAL_STATE) \<le> 30"
    "history INITIAL_STATE = []"
    by (simp_all add: INITIAL_STATE_def INITIAL_SENSORS_nonempty)
  from run_history [OF this(1,2), of es] this(3)
  obtain s where "run es INITIAL_STATE = Inr s"
    "history s = slice_last 30 (entries_of es INITIAL_STATE)"
    by auto
  then show ?thesis by (simp add: slice_last_length)
qed

lemma hd_cascade:
  "ss \<noteq> [] \<Longrightarrow>
     hd (map fst (cascade h dets rnd i st ss)) = fst (simulate_node h dets st (rnd i) (hd ss))"
  by (cases ss) (simp_all add: cascade_Cons del: cascade.simps)

lemma tick_history:
  assumes "isLive s" "sensors s \<noteq> []"
  shows "\<exists>s'. tick rnd now s = Inr s' \<and>
     sensors s' = map fst (cascade (segmentHealth s) (systemHealthDetails s) rnd 0 SOURCE
                             (sensors s)) \<and>
     sensor_id (hd (sensors s')) = sensor_id (hd (sensors s)) \<and>
     history s' = drop (Suc (length (history s)) - 30) (history s) @
                    [history_entry_of now (hd (sensors s'))]"
proof -
  from simulateFluidMetrics_ok [OF assms(2), of rnd now]
  obtain s' where s': "simulateFluidMetrics rnd now s = Inr s'"
    "sensors s' = map fst (cascade (segmentHealth s) (systemHealthDetails s) rnd 0 SOURCE
                             (sensors s))"
    "history s' = slice_last 30 (history s @ [history_entry_of now (hd (sensors s'))])"
    by blast
  from s'(2) hd_cascade [OF assms(2), of "segmentHealth s" "systemHealthDetails s" rnd 0 SOURCE]
  have "sensor_id (hd (sensors s')) = sensor_id (hd (sensors s))"
    by (simp add: simulate_node_id)
  with s' assms(1) show ?thesis by (simp add: tick_def slice_last_def)
qed

text \<open>
  C7. Every run of the provider from its initial state returns, and its history buffer
  is the last 30 entries, in order, of the log of the run: one entry for every tick that
  found the simulation live, holding the tick's time string and the pressure, flow and
  temperature the tick published for the first sensor. So the buffer never holds more
  than 30 entries. A live tick publishes the cascade's readings, keeps the first sensor
  first, appends exactly one entry, made of its time string and the new pressure, flow
  and temperature of that first sensor, at the end and, when that exceeds 30, drops
  from the front.
\<close>

theorem history_bounded_fifo:
  "(\<exists>s. run es INITIAL_STATE = Inr s \<and>
       history s = slice_last 30 (entries_of es INITIAL_STATE) \<and>
       length (history s) = min 30 (length (entries_of es INITIAL_STATE)) \<and>
       length (history s) \<le> 30) \<and>
   (isLive s0 \<and> sensors s0 \<noteq> [] \<longrightarrow>
     (\<exists>s'. tick rnd now s0 = Inr s' \<and>
        sensors s' = map fst (cascade (segmentHealth s0) (systemHealthDetails s0) rnd 0 SOURCE
                                (sensors s0)) \<and>
        sensor_id (hd (sensors s')) = sensor_id (hd (sensors s0)) \<and>
        history s' = drop (Suc (length (history s0)) - 30) (history s0) @
                       [\<lparr>h_timestamp = now, h_pressure = pressure (hd (sensors s')),
                         h_flow = flow (hd (sensors s')), h_temp = temp (hd (sensors s'))\<rparr>]))"
  using run_history_initial [of es] tick_history [of s0 rnd now]
  unfolding history_entry_of_def by blast

theorem history_bounded_fifo_witness:
  "isLive full_state \<and> sensors full_state \<noteq> [] \<and> length (history full_state) = 30 \<and>
   sensor_id (hd (sensors full_state)) = ''SENSOR_A'' \<and>
   (\<exists>s'. tick (\<lambda>_. draws0) ''12:00:00'' full_state = Inr s' \<and>
      sensor_id (hd (sensors s')) = ''SENSOR_A'' \<and>
      history s' = replicate 29 old_entry @
        [\<lparr>h_timestamp = ''12:00:00'', h_pressure = 75.42, h_flow = 350.5, h_temp = 32\<rparr>])"
proof -
  have live: "isLive full_state \<and> sensors full_state \<noteq> []"
    by (simp add: full_state_def INITIAL_STATE_def INITIAL_SENSORS_nonempty)
  have first: "sensor_id (hd (sensors full_state)) = ''SENSOR_A''"
    by (simp add: full_state_def INITIAL_STATE_def INITIAL_SENSORS_def)
  from live history_bounded_fifo [of "[]" full_state "\<lambda>_. draws0" "''12:00:00''"]
  obtain s' where s': "tick (\<lambda>_. draws0) ''12:00:00'' full_state = Inr s'"
    "sensors s' = map fst (cascade (segmentHealth full_state) (systemHealthDetails full_state)
                        (\<lambda>_. draws0) 0 SOURCE (sensors full_state))"
    "sensor_id (hd (sensors s')) = sensor_id (hd (sensors full_state))"
    "history s' = drop (Suc (length (history full_state)) - 30) (history full_state) @
                       [\<lparr>h_timestamp = ''12:00:00'', h_pressure = pressure (hd (sensors s')),
                         h_flow = flow (hd (sensors s')), h_temp = temp (hd (sensors s'))\<rparr>]"
    by blast
  from s'(2) have "hd (sensors s') =
      fst (simulate_node (segmentHealth INITIAL_STATE) [] SOURCE draws0 (hd INITIAL_SENSORS))"
    by (simp add: full_state_def INITIAL_STATE_def INITIAL_SENSORS_def cascade_Cons
        del: cascade.simps)
  with s'(4) first_node_initial [of "''12:00:00''"]
  have "history s' = replicate 29 old_entry @
        [\<lparr>h_timestamp = ''12:00:00'', h_pressure = 75.42, h_flow = 350.5, h_temp = 32\<rparr>]"
    by (simp add: full_state_def history_entry_of_def)
  with s'(1,3) live first show ?thesis by (simp add: full_state_def)
qed

subsection \<open>Monotone targets\<close>

lemma damage_of_health_at_damage: "damage_of (health_at_damage d) = d"
  by (simp add: damage_of_def health_at_damage_def)

lemma critical_mono: "d1 \<le> d2 \<Longrightarrow> health_at_damage d1 < 75 \<Longrightarrow> health_at_damage d2 < 75"
  by (simp add: health_at_damage_def)

lemma targetVib_mono:
  assumes "0 \<le> d1" "d1 \<le> d2"
  shows "targetVib_of v b (health_at_damage d1 < 75) d1 \<le> targetVib_of v b (health_at_damage d2 < 75) d2"
  using assms critical_mono [of d1 d2]
  by (auto simp: targetVib_of_def Let_def)

lemma targetCorrosion_mono:
  assumes "0 \<le> d1" "d1 \<le> d2"
  shows "targetCorrosion_of c (health_at_damage d1 < 75) d1 \<le> targetCorrosion_of c (health_at_damage d2 < 75) d2"
  using assms critical_mono [of d1 d2]
  by (auto simp: targetCorrosion_of_def Let_def)

lemma targetAcoustic_mono:
  assumes "d1 \<le> d2"
  shows "targetAcoustic_of l b d1 \<le> targetAcoustic_of l b d2"
  using assms by (auto simp: targetAcoustic_of_def Let_def)

text \<open>
  C9. With the driver categories held fixed, the vibration, corrosion and acoustic
  targets of a node do not decrease when the damage factor \<open>d = (100 - health) / 100\<close>
  grows within \<open>[0, 1]\<close>; the critical flag the targets also read is the one of the
  health that gives that damage.
\<close>

theorem targets_monotone_in_damage:
  assumes "0 \<le> d1" and "d1 \<le> d2" and "d2 \<le> 1"
  shows "damage_of (health_at_damage d1) = d1 \<and> damage_of (health_at_damage d2) = d2 \<and>
         targetVib_of hasVibration isBlockage (health_at_damage d1 < 75) d1
           \<le> targetVib_of hasVibration isBlockage (health_at_damage d2 < 75) d2 \<and>
         targetCorrosion_of isCorrosion (health_at_damage d1 < 75) d1
           \<le> targetCorrosion_of isCorrosion (health_at_damage d2 < 75) d2 \<and>
         targetAcoustic_of isLeak isBlockage d1 \<le> targetAcoustic_of isLeak isBlockage d2"
  using assms targetVib_mono [of d1 d2] targetCorrosion_mono [of d1 d2] targetAcoustic_mono [of d1 d2]
  by (simp add: damage_of_health_at_damage)

theorem targets_monotone_in_damage_witness:
  "(0::real) \<le> 0.2 \<and> (0.2::real) \<le> 0.3 \<and> (0.3::real) \<le> 1 \<and>
   targetVib_of False False (health_at_damage 0.2 < 75) 0.2 = 0.02 \<and>
   targetVib_of False False (health_at_damage 0.3 < 75) 0.3 = 0.26 \<and>
   targetVib_of False False (health_at_damage 0.2 < 75) 0.2
     \<le> targetVib_of False False (health_at_damage 0.3 < 75) 0.3 \<and>
   targetCorrosion_of False (health_at_damage 0.2 < 75) 0.2
     \<le> targetCorrosion_of False (health_at_damage 0.3 < 75) 0.3 \<and>
   targetAcoustic_of True False 0.2 \<le> targetAcoustic_of True False 0.3"
proof -
  have h: "(0::real) \<le> 0.2" "(0.2::real) \<le> 0.3" "(0.3::real) \<le> 1" by simp_all
  have v: "targetVib_of False False (health_at_damage 0.2 < 75) 0.2 = 0.02"
    "targetVib_of False False (health_at_damage 0.3 < 75) 0.3 = 0.26"
    by (simp_all add: targetVib_of_def health_at_damage_def)
  from targets_monotone_in_damage [OF h, of False False False True] h v
  show ?thesis by simp
qed

subsection \<open>A score of zero\<close>

lemma js_or_forget_zero: "js_or (health_score (forget_zero det)) 100 = js_or (health_score det) 100"
  by (simp add: forget_zero_def js_or_def)

lemma drivers_forget_zero: "drivers (forget_zero det) = drivers det"
  by (simp add: forget_zero_def)

lemma map_of_map_details:
  "map_of (map (\<lambda>(k, d). (k, f d)) sh) seg = map_option f (map_of sh seg)"
  by (induction sh) auto

lemma hasDriver_forget_zero:
  "hasDriver (map (\<lambda>(k, d). (k, forget_zero d)) sh) seg drv = hasDriver sh seg drv"
  by (simp add: hasDriver_def map_of_map_details drivers_forget_zero split: option.splits)

lemma segHealth_foldl_forget:
  "foldl (\<lambda>m (seg, det). m(seg \<mapsto> js_or (health_score det) 100)) m0 (map (\<lambda>(k, d). (k, forget_zero d)) sh)
   = foldl (\<lambda>m (seg, det). m(seg \<mapsto> js_or (health_score det) 100)) m0 sh"
  by (induction sh arbitrary: m0) (auto simp: js_or_forget_zero)

lemma scores_forget:
  "map (\<lambda>(seg, det). js_or (health_score det) 100) (map (\<lambda>(k, d). (k, forget_zero d)) sh)
   = map (\<lambda>(seg, det). js_or (health_score det) 100) sh"
  by (induction sh) (auto simp: js_or_forget_zero)

lemma handleBackendUpdate_feed:
  "handleBackendUpdate (feed sh) s =
     s\<lparr>systemHealthDetails := sh,
       systemHealth := (if sh = [] then None
          else Some (foldl (+) 0 (map (\<lambda>(seg, det). js_or (health_score det) 100) sh) / real (length sh))),
       segmentHealth := foldl (\<lambda>m (seg, det). m(seg \<mapsto> js_or (health_score det) 100)) Map.empty sh\<rparr>"
  by (simp add: handleBackendUpdate_def feed_def Let_def)

lemma simulate_node_details_cong:
  assumes "\<And>seg drv. hasDriver d1 seg drv = hasDriver d2 seg drv"
  shows "simulate_node h d1 st r s = simulate_node h d2 st r s"
  using assms by (simp add: simulate_node_def isLeak_of_def isBlockage_of_def isCorrosion_of_def)

lemma cascade_details_cong:
  assumes "\<And>seg drv. hasDriver d1 seg drv = hasDriver d2 seg drv"
  shows "cascade h d1 rnd i st ss = cascade h d2 rnd i st ss"
  by (induction ss arbitrary: i st) (simp_all add: simulate_node_details_cong [OF assms])

lemma segHealth_foldl_snoc:
  "foldl (\<lambda>m (seg, det). m(seg \<mapsto> js_or (health_score det) 100)) m0 sh seg =
     (case map_of (rev sh) seg of None \<Rightarrow> m0 seg | Some det \<Rightarrow> Some (js_or (health_score det) 100))"
  by (induction sh rule: rev_induct) (auto split: option.splits)

lemma map_of_rev_distinct: "distinct (map fst sh) \<Longrightarrow> map_of (rev sh) = map_of sh"
  by (metis distinct_rev map_of_inject_set rev_map set_rev distinct_rev)

lemma stream_step_no_damage:
  "stream_step l b False 0 st =
     \<lparr>streamPressure = max 0 (streamPressure st - 0.8), streamFlow = max 0 (streamFlow st)\<rparr>"
  by (simp add: stream_step_def)

lemma ingest_zero_score:
  assumes "distinct (map fst sh)" and "map_of sh seg = Some det" and "health_score det = Some 0"
  shows "segmentHealth (handleBackendUpdate (feed sh) s) seg = Some 100"
proof -
  have "segmentHealth (handleBackendUpdate (feed sh) s) seg =
          (case map_of (rev sh) seg of None \<Rightarrow> Map.empty seg
           | Some det \<Rightarrow> Some (js_or (health_score det) 100))"
    by (simp add: handleBackendUpdate_feed segHealth_foldl_snoc)
  also have "\<dots> = Some (js_or (health_score det) 100)"
    using assms(1,2) by (simp only: map_of_rev_distinct option.case)
  also have "\<dots> = Some 100"
    using assms(3) by (simp add: js_or_def)
  finally show ?thesis .
qed

lemma node_at_full_health:
  assumes "h (segmentId_of (sensor_id x)) = Some 100"
  shows "status (fst (simulate_node h dets st r x)) = Normal"
    and "snd (simulate_node h dets st r x) =
      \<lparr>streamPressure = max 0 (streamPressure st - 0.8), streamFlow = max 0 (streamFlow st)\<rparr>"
  using assms
  by (simp_all add: simulate_node_status simulate_node_stream health_of_def js_or_def spec_status_def
      damage_of_def stream_step_no_damage)

text \<open>
  C10. A health score of exactly 0 is handled as a missing score. The engine's lookup
  reads 100 for a stored 0 as for no entry. On ingestion, a feed and the same feed with
  every score 0 removed publish the same segment health and system health and make the
  cascade compute the same readings. A segment reported at 0 is published at 100, its
  node is classified normal and its stream loses the friction term only.
\<close>

theorem zero_score_is_missing_score:
  "health_of (m(seg \<mapsto> 0)) seg = 100 \<and> health_of (m(seg := None)) seg = 100 \<and>
   segmentHealth (handleBackendUpdate (feed sh) s) =
     segmentHealth (handleBackendUpdate (feed (map (\<lambda>(k, d). (k, forget_zero d)) sh)) s) \<and>
   systemHealth (handleBackendUpdate (feed sh) s) =
     systemHealth (handleBackendUpdate (feed (map (\<lambda>(k, d). (k, forget_zero d)) sh)) s) \<and>
   cascade (segmentHealth (handleBackendUpdate (feed sh) s))
       (systemHealthDetails (handleBackendUpdate (feed sh) s)) rnd i st ss =
     cascade (segmentHealth (handleBackendUpdate (feed (map (\<lambda>(k, d). (k, forget_zero d)) sh)) s))
       (systemHealthDetails (handleBackendUpdate (feed (map (\<lambda>(k, d). (k, forget_zero d)) sh)) s))
       rnd i st ss \<and>
   (distinct (map fst sh) \<and> map_of sh seg = Some det \<and> health_score det = Some 0 \<and>
    segmentId_of (sensor_id x) = seg \<longrightarrow>
      segmentHealth (handleBackendUpdate (feed sh) s) seg = Some 100 \<and>
      status (fst (simulate_node (segmentHealth (handleBackendUpdate (feed sh) s))
                     (systemHealthDetails (handleBackendUpdate (feed sh) s)) st r x)) = Normal \<and>
      snd (simulate_node (segmentHealth (handleBackendUpdate (feed sh) s))
                     (systemHealthDetails (handleBackendUpdate (feed sh) s)) st r x) =
        \<lparr>streamPressure = max 0 (streamPressure st - 0.8), streamFlow = max 0 (streamFlow st)\<rparr>)"
proof -
  let ?sh' = "map (\<lambda>(k, d). (k, forget_zero d)) sh"
  have lookup: "health_of (m(seg \<mapsto> 0)) seg = 100 \<and> health_of (m(seg := None)) seg = 100"
    by (simp add: health_of_def js_or_def)
  have seg: "segmentHealth (handleBackendUpdate (feed sh) s) =
             segmentHealth (handleBackendUpdate (feed ?sh') s)"
    by (simp add: handleBackendUpdate_feed segHealth_foldl_forget)
  have sys: "systemHealth (handleBackendUpdate (feed sh) s) =
             systemHealth (handleBackendUpdate (feed ?sh') s)"
    using scores_forget [of sh] by (simp add: handleBackendUpdate_feed del: map_map)
  have dets: "systemHealthDetails (handleBackendUpdate (feed sh) s) = sh"
    "systemHealthDetails (handleBackendUpdate (feed ?sh') s) = ?sh'"
    by (simp_all add: handleBackendUpdate_feed)
  have casc: "cascade (segmentHealth (handleBackendUpdate (feed sh) s))
       (systemHealthDetails (handleBackendUpdate (feed sh) s)) rnd i st ss =
     cascade (segmentHealth (handleBackendUpdate (feed ?sh') s))
       (systemHealthDetails (handleBackendUpdate (feed ?sh') s)) rnd i st ss"
    unfolding dets seg [symmetric]
    by (rule cascade_details_cong) (simp add: hasDriver_forget_zero)
  have zero: "segmentHealth (handleBackendUpdate (feed sh) s) seg = Some 100 \<and>
      status (fst (simulate_node (segmentHealth (handleBackendUpdate (feed sh) s))
                     (systemHealthDetails (handleBackendUpdate (feed sh) s)) st r x)) = Normal \<and>
      snd (simulate_node (segmentHealth (handleBackendUpdate (feed sh) s))
                     (systemHealthDetails (handleBackendUpdate (feed sh) s)) st r x) =
        \<lparr>streamPressure = max 0 (streamPressure st - 0.8), streamFlow = max 0 (streamFlow st)\<rparr>"
    if "distinct (map fst sh)" "map_of sh seg = Some det" "health_score det = Some 0"
       "segmentId_of (sensor_id x) = seg"
  proof -
    from ingest_zero_score [OF that(1-3), of s]
    have h: "segmentHealth (handleBackendUpdate (feed sh) s) seg = Some 100" .
    with that(4) have "segmentHealth (handleBackendUpdate (feed sh) s) (segmentId_of (sensor_id x)) = Some 100"
      by simp
    from node_at_full_health [of "segmentHealth (handleBackendUpdate (feed sh) s)" x, OF this] h
    show ?thesis by simp
  qed
  from lookup seg sys casc zero show ?thesis by blast
qed

theorem zero_score_is_missing_score_witness:
  "distinct (map fst zero_feed) \<and>
   map_of zero_feed ''C-D'' = Some \<lparr>health_score = Some 0, drivers = Some [\<lparr>name = ''Seal Leak''\<rparr>]\<rparr> \<and>
   segmentId_of (sensor_id (INITIAL_SENSORS ! 2)) = ''C-D'' \<and>
   segmentHealth (handleBackendUpdate (feed zero_feed) INITIAL_STATE) ''C-D'' = Some 100 \<and>
   status (fst (simulate_node (segmentHealth (handleBackendUpdate (feed zero_feed) INITIAL_STATE))
                  (systemHealthDetails (handleBackendUpdate (feed zero_feed) INITIAL_STATE))
                  SOURCE draws0 (INITIAL_SENSORS ! 2))) = Normal"
proof -
  have h: "distinct (map fst zero_feed)"
    "map_of zero_feed ''C-D'' = Some \<lparr>health_score = Some 0, drivers = Some [\<lparr>name = ''Seal Leak''\<rparr>]\<rparr>"
    "health_score \<lparr>health_score = Some 0, drivers = Some [\<lparr>name = ''Seal Leak''\<rparr>]\<rparr> = Some 0"
    "segmentId_of (sensor_id (INITIAL_SENSORS ! 2)) = ''C-D''"
    by (simp_all add: zero_feed_def INITIAL_SENSORS_def segmentId_of_simps)
  from zero_score_is_missing_score [of Map.empty "''C-D''" zero_feed INITIAL_STATE "\<lambda>_. draws0" 0 SOURCE "[]"
      "\<lparr>health_score = Some 0, drivers = Some [\<lparr>name = ''Seal Leak''\<rparr>]\<rparr>" "INITIAL_SENSORS ! 2"
      draws0,
      THEN conjunct2, THEN conjunct2, THEN conjunct2, THEN conjunct2, THEN conjunct2] h
  have "segmentHealth (handleBackendUpdate (feed zero_feed) INITIAL_STATE) ''C-D'' = Some 100 \<and>
        status (fst (simulate_node (segmentHealth (handleBackendUpdate (feed zero_feed) INITIAL_STATE))
                  (systemHealthDetails (handleBackendUpdate (feed zero_feed) INITIAL_STATE))
                  SOURCE draws0 (INITIAL_SENSORS ! 2))) = Normal"
    by blast
  with h show ?thesis by simp
qed

subsection \<open>Blockage drivers\<close>

lemma clog_facts:
  "health_of clog_health ''A-B'' = 100" "health_of clog_health ''B-C'' = 100"
  "health_of clog_health ''C-D'' = 40" "health_of clog_health ''D-E'' = 100"
  "isLeak_of clog_details ''A-B'' = False" "isLeak_of clog_details ''B-C'' = False"
  "isLeak_of clog_details ''C-D'' = False" "isLeak_of clog_details ''D-E'' = False"
  "isBlockage_of clog_details ''A-B'' = False" "isBlockage_of clog_details ''B-C'' = False"
  "isBlockage_of clog_details ''C-D'' = True" "isBlockage_of clog_details ''D-E'' = False"
  by (simp_all add: clog_details_def clog_health_def isLeak_of_def isBlockage_of_def hasDriver_def
      health_of_def js_or_def toLowerCase_def toLowerCase_char_def)

lemma stream_step_blockage:
  "stream_step l True c d st =
     \<lparr>streamPressure = max 0 (streamPressure st + d * 5 - 0.8),
      streamFlow = max 0 (streamFlow st - (if l \<or> c then d * 40 else 0))\<rparr>"
  by (simp add: stream_step_def)

lemma clog_streams:
  "map snd (cascade clog_health clog_details (\<lambda>_. draws0) 0 SOURCE INITIAL_SENSORS) =
    [\<lparr>streamPressure = 79.2, streamFlow = 355\<rparr>, \<lparr>streamPressure = 78.4, streamFlow = 355\<rparr>,
     \<lparr>streamPressure = 80.6, streamFlow = 331\<rparr>, \<lparr>streamPressure = 79.8, streamFlow = 331\<rparr>,
     \<lparr>streamPressure = 79, streamFlow = 331\<rparr>]"
  unfolding INITIAL_SENSORS_def SOURCE_def
  by (simp only: cascade_streams_Cons simulate_node_stream)
     (simp add: segmentId_of_simps clog_facts stream_step_healthy stream_step_blockage damage_of_def)

text \<open>
  C1, as stated, fails: with segment C-D at health 40 and a "clog" driver the flow of the
  stream drops from 355 to 331 at node C, by the leak-loss term \<open>0.6 * 40\<close>, and stays
  lowered downstream.
\<close>

theorem blockage_flow_loss_counterexample:
  "isBlockage_of clog_details ''C-D'' \<and> health_of clog_health ''C-D'' = 40 \<and>
   map (streamFlow \<circ> snd) (cascade clog_health clog_details (\<lambda>_. draws0) 0 SOURCE INITIAL_SENSORS)
     = [355, 355, 331, 331, 331]"
  using clog_streams by (simp add: clog_facts flip: map_map)

text \<open>
  C1, amended. At a node whose segment has a blockage-like driver the leak pressure drop
  is zero and the backpressure \<open>damage * 5\<close> is added: the stream pressure becomes
  \<open>max 0 (p + damage * 5 - 0.8)\<close>. The stream flow still loses the leak-loss term
  \<open>damage * 40\<close> when the segment also has a leak-like driver or its health is below 75,
  and nothing otherwise.
\<close>

theorem blockage_suppresses_pressure_drop_only:
  assumes "isBlockage_of dets (segmentId_of (sensor_id s))"
  shows "snd (simulate_node currentHealth dets st r s) =
     (let segmentId = segmentId_of (sensor_id s);
          health = health_of currentHealth segmentId;
          damage = (100 - health) / 100
      in \<lparr>streamPressure = max 0 (streamPressure st + damage * 5 - 0.8),
          streamFlow = max 0 (streamFlow st -
             (if isLeak_of dets segmentId \<or> health < 75 then damage * 40 else 0))\<rparr>)"
  using assms by (simp add: simulate_node_stream stream_step_blockage damage_of_def Let_def)

theorem blockage_suppresses_pressure_drop_only_witness:
  "isBlockage_of clog_details (segmentId_of (sensor_id (INITIAL_SENSORS ! 2))) \<and>
   snd (simulate_node clog_health clog_details \<lparr>streamPressure = 78.4, streamFlow = 355\<rparr> draws0
          (INITIAL_SENSORS ! 2)) = \<lparr>streamPressure = 80.6, streamFlow = 331\<rparr>"
proof -
  have h: "isBlockage_of clog_details (segmentId_of (sensor_id (INITIAL_SENSORS ! 2)))"
    by (simp add: INITIAL_SENSORS_def segmentId_of_simps clog_facts)
  have seg: "segmentId_of (sensor_id (INITIAL_SENSORS ! 2)) = ''C-D''"
    by (simp add: INITIAL_SENSORS_def segmentId_of_simps)
  from blockage_suppresses_pressure_drop_only [OF h, of clog_health
      "\<lparr>streamPressure = 78.4, streamFlow = 355\<rparr>" draws0] h
  show ?thesis by (simp add: seg clog_facts Let_def)
qed

subsection \<open>The terminal node\<close>

lemma initial_streams:
  "map snd (cascade (segmentHealth INITIAL_STATE) [] (\<lambda>_. draws0) 0 SOURCE INITIAL_SENSORS) =
    [\<lparr>streamPressure = 79.2, streamFlow = 355\<rparr>, \<lparr>streamPressure = 78.4, streamFlow = 355\<rparr>,
     \<lparr>streamPressure = 77.6, streamFlow = 355\<rparr>, \<lparr>streamPressure = 76.8, streamFlow = 355\<rparr>,
     \<lparr>streamPressure = 76, streamFlow = 355\<rparr>]"
  unfolding INITIAL_SENSORS_def SOURCE_def
  by (simp only: cascade_streams_Cons simulate_node_stream)
     (simp add: segmentId_of_simps initial_health no_details_facts stream_step_healthy damage_of_def)

text \<open>
  C2, as stated, fails: in the initial state, all segments healthy, the stream leaves
  node D at pressure 76.8 and leaves the terminal node E at 76: the terminal node
  subtracts the friction loss like every other node.
\<close>

theorem terminal_node_counterexample:
  "sensor_id (INITIAL_SENSORS ! 4) = ''SENSOR_E'' \<and>
   map (streamPressure \<circ> snd)
     (cascade (segmentHealth INITIAL_STATE) (systemHealthDetails INITIAL_STATE) (\<lambda>_. draws0) 0 SOURCE
        (sensors INITIAL_STATE))
     = [79.2, 78.4, 77.6, 76.8, 76]"
proof -
  have "systemHealthDetails INITIAL_STATE = []" "sensors INITIAL_STATE = INITIAL_SENSORS"
    by (simp_all add: INITIAL_STATE_def)
  with initial_streams show ?thesis
    by (simp add: INITIAL_SENSORS_def flip: map_map)
qed

text \<open>
  C2, amended. The terminal node \<open>SENSOR_E\<close> is processed like every other node, on
  segment D-E, the segment of \<open>SENSOR_D\<close>. From the stream it receives it subtracts the
  friction loss 0.8 and the leak terms of D-E (adding the backpressure of D-E for a
  blockage driver) and clamps at 0, exactly as node D does; it publishes its pressure and
  flow from that stream after the losses, computes its vibration, corrosion and acoustic
  targets from the health and drivers of D-E, and takes its status from the health of
  D-E.
\<close>

theorem terminal_node_on_segment_DE:
  assumes "sensor_id sE = ''SENSOR_E''" and "sensor_id sD = ''SENSOR_D''"
  shows
   "(let health = health_of currentHealth ''D-E'';
         damage = (100 - health) / 100;
         isLeak = isLeak_of dets ''D-E'';
         isBlockage = isBlockage_of dets ''D-E'';
         isCorrosion = isCorrosion_of dets ''D-E'';
         hasVibration = hasDriver dets ''D-E'' ''vibration'';
         s' = fst (simulate_node currentHealth dets st r sE);
         st' = snd (simulate_node currentHealth dets st r sE)
     in segmentId_of (sensor_id sE) = ''D-E'' \<and>
        st' = snd (simulate_node currentHealth dets st r' sD) \<and>
        st' = stream_step isLeak isBlockage (health < 75) (damage_of health) st \<and>
        streamPressure st' =
          max 0 ((if isBlockage then streamPressure st + damage * 5 else streamPressure st) - 0.8 -
                 (if isBlockage then 0 else if isLeak \<or> health < 75 then damage * 25 else 0)) \<and>
        streamFlow st' =
          max 0 (streamFlow st - (if isLeak \<or> health < 75 then damage * 40 else 0)) \<and>
        pressure s' =
          toFixed 2 (max 0 (pressure sE * 0.9 +
                            (streamPressure st' + (rP r - 0.5) * (0.8 + damage * 3)) * 0.1)) \<and>
        flow s' =
          toFixed 1 (max 0 (flow sE * 0.9 +
                            (streamFlow st' + (rF r - 0.5) * (2.0 + damage * 8)) * 0.1)) \<and>
        vibration s' =
          toFixed 3 (vibration sE * 0.9 +
                     (targetVib_of hasVibration isBlockage (health < 75) damage +
                      rV r * (0.005 + damage * 0.05)) * 0.1) \<and>
        corrosion s' = toFixed 4 (targetCorrosion_of isCorrosion (health < 75) damage) \<and>
        acoustic s' =
          Some (toFixed 1 (smooth (acoustic sE)
                  (targetAcoustic_of isLeak isBlockage damage +
                   (rA r - 0.5) * (0.5 + damage * 2)))) \<and>
        status s' = spec_status health \<and>
        (\<not> isLeak \<and> \<not> isBlockage \<and> \<not> health < 75 \<longrightarrow>
           st' = \<lparr>streamPressure = max 0 (streamPressure st - 0.8),
                  streamFlow = max 0 (streamFlow st)\<rparr>))"
proof -
  have seg: "segmentId_of (sensor_id sE) = ''D-E''" "segmentId_of (sensor_id sD) = ''D-E''"
    using assms by (simp_all add: segmentId_of_simps)
  show ?thesis
    unfolding Let_def simulate_node_fields simulate_node_local_fields simulate_node_stream
      simulate_node_status seg
    by (simp add: stream_step_def smooth_def damage_of_def noiseP_of_def noiseF_of_def
        noiseV_of_def noiseA_of_def)
qed

theorem terminal_node_on_segment_DE_witness:
  "sensor_id (INITIAL_SENSORS ! 4) = ''SENSOR_E'' \<and> sensor_id (INITIAL_SENSORS ! 3) = ''SENSOR_D'' \<and>
   snd (simulate_node (segmentHealth INITIAL_STATE) [] \<lparr>streamPressure = 76.8, streamFlow = 355\<rparr>
          draws0 (INITIAL_SENSORS ! 4)) = \<lparr>streamPressure = 76, streamFlow = 355\<rparr> \<and>
   pressure (fst (simulate_node (segmentHealth INITIAL_STATE) []
          \<lparr>streamPressure = 76.8, streamFlow = 355\<rparr> draws0 (INITIAL_SENSORS ! 4))) = 71.5 \<and>
   flow (fst (simulate_node (segmentHealth INITIAL_STATE) []
          \<lparr>streamPressure = 76.8, streamFlow = 355\<rparr> draws0 (INITIAL_SENSORS ! 4))) = 350.5"
proof -
  have h: "sensor_id (INITIAL_SENSORS ! 4) = ''SENSOR_E''" "sensor_id (INITIAL_SENSORS ! 3) = ''SENSOR_D''"
    by (simp_all add: INITIAL_SENSORS_def)
  have prev: "pressure (INITIAL_SENSORS ! 4) = 71" "flow (INITIAL_SENSORS ! 4) = 350"
    by (simp_all add: INITIAL_SENSORS_def)
  note t = terminal_node_on_segment_DE [OF h, of "segmentHealth INITIAL_STATE" "[]"
      "\<lparr>streamPressure = 76.8, streamFlow = 355\<rparr>" draws0 draws0, unfolded Let_def]
  have hl: "health_of (segmentHealth INITIAL_STATE) ''D-E'' = 100"
    by (simp add: initial_health)
  have nd: "\<not> isLeak_of [] ''D-E''" "\<not> isBlockage_of [] ''D-E''"
    by (simp_all add: no_details_facts)
  from t have "\<not> isLeak_of [] ''D-E'' \<and> \<not> isBlockage_of [] ''D-E'' \<and>
        \<not> health_of (segmentHealth INITIAL_STATE) ''D-E'' < 75 \<longrightarrow>
      snd (simulate_node (segmentHealth INITIAL_STATE) []
          \<lparr>streamPressure = 76.8, streamFlow = 355\<rparr> draws0 (INITIAL_SENSORS ! 4)) =
      \<lparr>streamPressure = max 0 (streamPressure \<lparr>streamPressure = 76.8, streamFlow = 355\<rparr> - 0.8),
       streamFlow = max 0 (streamFlow \<lparr>streamPressure = 76.8, streamFlow = 355\<rparr>)\<rparr>"
    by blast
  with nd hl have st: "snd (simulate_node (segmentHealth INITIAL_STATE) []
          \<lparr>streamPressure = 76.8, streamFlow = 355\<rparr> draws0 (INITIAL_SENSORS ! 4)) =
      \<lparr>streamPressure = 76, streamFlow = 355\<rparr>"
    by simp
  then have sp: "streamPressure (snd (simulate_node (segmentHealth INITIAL_STATE) []
          \<lparr>streamPressure = 76.8, streamFlow = 355\<rparr> draws0 (INITIAL_SENSORS ! 4))) = 76"
    and sf: "streamFlow (snd (simulate_node (segmentHealth INITIAL_STATE) []
          \<lparr>streamPressure = 76.8, streamFlow = 355\<rparr> draws0 (INITIAL_SENSORS ! 4))) = 355"
    by simp_all
  from t have "pressure (fst (simulate_node (segmentHealth INITIAL_STATE) []
          \<lparr>streamPressure = 76.8, streamFlow = 355\<rparr> draws0 (INITIAL_SENSORS ! 4))) =
       toFixed 2 (max 0 (pressure (INITIAL_SENSORS ! 4) * 0.9 +
          (streamPressure (snd (simulate_node (segmentHealth INITIAL_STATE) []
             \<lparr>streamPressure = 76.8, streamFlow = 355\<rparr> draws0 (INITIAL_SENSORS ! 4))) +
           (rP draws0 - 0.5) * (0.8 + (100 - health_of (segmentHealth INITIAL_STATE) ''D-E'') / 100 * 3))
          * 0.1))"
    by blast
  then have p: "pressure (fst (simulate_node (segmentHealth INITIAL_STATE) []
          \<lparr>streamPressure = 76.8, streamFlow = 355\<rparr> draws0 (INITIAL_SENSORS ! 4))) = 71.5"
    by (simp only: sp prev hl) (simp add: draws0_def toFixed_def)
  from t have "flow (fst (simulate_node (segmentHealth INITIAL_STATE) []
          \<lparr>streamPressure = 76.8, streamFlow = 355\<rparr> draws0 (INITIAL_SENSORS ! 4))) =
       toFixed 1 (max 0 (flow (INITIAL_SENSORS ! 4) * 0.9 +
          (streamFlow (snd (simulate_node (segmentHealth INITIAL_STATE) []
             \<lparr>streamPressure = 76.8, streamFlow = 355\<rparr> draws0 (INITIAL_SENSORS ! 4))) +
           (rF draws0 - 0.5) * (2.0 + (100 - health_of (segmentHealth INITIAL_STATE) ''D-E'') / 100 * 8))
          * 0.1))"
    by blast
  then have f: "flow (fst (simulate_node (segmentHealth INITIAL_STATE) []
          \<lparr>streamPressure = 76.8, streamFlow = 355\<rparr> draws0 (INITIAL_SENSORS ! 4))) = 350.5"
    by (simp only: sf prev hl) (simp add: draws0_def toFixed_def)
  from h st p f show ?thesis by simp
qed

subsection \<open>The initial run state\<close>

text \<open>
  C3, as stated, fails: the initial state has \<open>isLive\<close> set, and the first tick changes
  the state.
\<close>

theorem starts_running_counterexample:
  "isLive INITIAL_STATE \<and>
   tick (\<lambda>_. draws0) ''12:00:00'' INITIAL_STATE \<noteq> Inr INITIAL_STATE"
proof -
  have live: "isLive INITIAL_STATE" and ne: "sensors INITIAL_STATE \<noteq> []"
    and h0: "history INITIAL_STATE = []"
    by (simp_all add: INITIAL_STATE_def INITIAL_SENSORS_nonempty)
  from tick_history [OF live ne, of "\<lambda>_. draws0" "''12:00:00''"]
  obtain s' where "tick (\<lambda>_. draws0) ''12:00:00'' INITIAL_STATE = Inr s'" "history s' \<noteq> []"
    by auto
  with h0 live show ?thesis by auto
qed

text \<open>
  C3, amended. The provider starts running (\<open>isLive\<close> is initially true): the first tick
  after start already publishes the cascade's readings and appends the first history
  entry. A tick that finds \<open>isLive\<close> false changes nothing.
\<close>

theorem starts_running_tick_gated:
  "isLive INITIAL_STATE \<and>
   (\<exists>s'. tick rnd now INITIAL_STATE = Inr s' \<and>
      sensors s' = map fst (cascade (segmentHealth INITIAL_STATE) (systemHealthDetails INITIAL_STATE)
                              rnd 0 SOURCE (sensors INITIAL_STATE)) \<and>
      history s' = [history_entry_of now (hd (sensors s'))]) \<and>
   (\<not> isLive s \<longrightarrow> tick rnd now s = Inr s)"
proof -
  have live: "isLive INITIAL_STATE" and ne: "sensors INITIAL_STATE \<noteq> []"
    and h0: "history INITIAL_STATE = []"
    by (simp_all add: INITIAL_STATE_def INITIAL_SENSORS_nonempty)
  from simulateFluidMetrics_ok [OF ne, of rnd now] live h0
  have "\<exists>s'. tick rnd now INITIAL_STATE = Inr s' \<and>
      sensors s' = map fst (cascade (segmentHealth INITIAL_STATE) (systemHealthDetails INITIAL_STATE)
                              rnd 0 SOURCE (sensors INITIAL_STATE)) \<and>
      history s' = [history_entry_of now (hd (sensors s'))]"
    by (auto simp: tick_def slice_last_def)
  with live show ?thesis by (simp add: tick_def)
qed

theorem starts_running_tick_gated_witness:
  "\<not> isLive (snd (runDiagnostics INITIAL_STATE)) \<and>
   tick (\<lambda>_. draws0) ''12:00:00'' (snd (runDiagnostics INITIAL_STATE)) =
     Inr (snd (runDiagnostics INITIAL_STATE))"
proof -
  have "\<not> isLive (snd (runDiagnostics INITIAL_STATE))"
    by (simp add: runDiagnostics_def INITIAL_STATE_def)
  with starts_running_tick_gated [of "\<lambda>_. draws0" "''12:00:00''" "snd (runDiagnostics INITIAL_STATE)"]
  show ?thesis by simp
qed

subsection \<open>Smoothing and noise\<close>

text \<open>
  C4, as stated, fails for corrosion: a sensor whose previous corrosion reading is 0.37,
  on a segment now at health 100, publishes 0.01, the bare target. The smoothing formula
  would give \<open>0.37 * 0.9 + (0.01 + noise) * 0.1\<close>, which is not 0.01 for any of the noise
  terms of the node.
\<close>

theorem corrosion_not_smoothed_counterexample:
  "corrosion worn_sensor = 0.37 \<and>
   corrosion (fst (simulate_node (segmentHealth INITIAL_STATE) [] SOURCE draws0 worn_sensor)) = 0.01 \<and>
   list_all (\<lambda>noise. corrosion worn_sensor * 0.9 + (0.01 + noise) * 0.1 \<noteq> 0.01)
     [noiseP_of draws0 0, noiseF_of draws0 0, noiseV_of draws0 0, noiseA_of draws0 0, rT draws0 - 0.5]"
proof -
  have seg: "segmentId_of (sensor_id worn_sensor) = ''C-D''"
    by (simp add: worn_sensor_def INITIAL_SENSORS_def segmentId_of_simps)
  have "corrosion (fst (simulate_node (segmentHealth INITIAL_STATE) [] SOURCE draws0 worn_sensor)) = 0.01"
    unfolding simulate_node_local_fields seg
    by (simp add: initial_health no_details_facts damage_of_def targetCorrosion_of_def toFixed_def)
  moreover have "corrosion worn_sensor = 0.37"
    by (simp add: worn_sensor_def)
  ultimately show ?thesis
    by (simp add: noiseP_of_def noiseF_of_def noiseV_of_def noiseA_of_def draws0_def)
qed

text \<open>
  C4, amended. Pressure, flow, temperature, vibration and acoustic are published as
  \<open>previous * 0.9 + (target + noise) * 0.1\<close>, rounded (pressure and flow clamped at 0
  first); each noise term comes from its own random draw, with an amplitude linear in
  the damage for pressure, flow, vibration and acoustic and a fixed one for temperature.
  When there is no previous acoustic value, \<open>target + noise\<close> is used as it is.
  Corrosion is published as its target rounded to four decimals: no smoothing, no noise.
\<close>

theorem smoothing_per_metric:
  "(let segmentId = segmentId_of (sensor_id s);
        health = health_of currentHealth segmentId;
        damage = (100 - health) / 100;
        s' = fst (simulate_node currentHealth dets st r s);
        st' = snd (simulate_node currentHealth dets st r s);
        targetVib = targetVib_of (hasDriver dets segmentId ''vibration'') (isBlockage_of dets segmentId)
                      (health < 75) damage;
        targetAcoustic = targetAcoustic_of (isLeak_of dets segmentId) (isBlockage_of dets segmentId) damage;
        targetCorrosion = targetCorrosion_of (isCorrosion_of dets segmentId) (health < 75) damage;
        noiseP = (rP r - 0.5) * (0.8 + damage * 3);
        noiseF = (rF r - 0.5) * (2.0 + damage * 8);
        noiseV = rV r * (0.005 + damage * 0.05);
        noiseA = (rA r - 0.5) * (0.5 + damage * 2);
        noiseT = rT r - 0.5
    in pressure s' = toFixed 2 (max 0 (pressure s * 0.9 + (streamPressure st' + noiseP) * 0.1)) \<and>
       flow s' = toFixed 1 (max 0 (flow s * 0.9 + (streamFlow st' + noiseF) * 0.1)) \<and>
       temp s' = toFixed 1 (temp s * 0.9 + (32 + damage * 5 + noiseT) * 0.1) \<and>
       vibration s' = toFixed 3 (vibration s * 0.9 + (targetVib + noiseV) * 0.1) \<and>
       acoustic s' = Some (toFixed 1 (case acoustic s of
                                        None \<Rightarrow> targetAcoustic + noiseA
                                      | Some a \<Rightarrow> a * 0.9 + (targetAcoustic + noiseA) * 0.1)) \<and>
       corrosion s' = toFixed 4 targetCorrosion)"
  unfolding Let_def simulate_node_fields simulate_node_local_fields
  by (simp add: smooth_def damage_of_def noiseP_of_def noiseF_of_def noiseV_of_def noiseA_of_def
      split: option.splits)

theorem smoothing_per_metric_witness:
  "(let s' = fst (simulate_node (segmentHealth INITIAL_STATE) [] SOURCE draws0 (hd INITIAL_SENSORS))
    in pressure s' = 75.42 \<and> flow s' = 350.5 \<and> temp s' = 32 \<and> vibration s' = 0.02 \<and>
       acoustic s' = Some 40 \<and> corrosion s' = 0.01)"
  using smoothing_per_metric [of "hd INITIAL_SENSORS" "segmentHealth INITIAL_STATE" "[]" SOURCE draws0]
  unfolding Let_def simulate_node_stream
  by (simp add: INITIAL_SENSORS_def segmentId_of_simps initial_health no_details_facts SOURCE_def
      stream_step_healthy targetVib_of_def targetAcoustic_of_def targetCorrosion_of_def draws0_def
      toFixed_def)

subsection \<open>Resume and pause\<close>










subsection \<open>Status and the health score\<close>





end
